theory Spec2Isabelle
  imports Complex_Main
begin

section \<open>The transporter of pm2-io-apm-go (package services)\<close>

text \<open>
  The Go type \<^verbatim>\<open>Transporter\<close> owns one websocket handle and four boolean flags; its
  methods are run by several goroutines. Each method is embedded as a function that
  takes the transporter and the outside world and gives back both, so that one call is
  followed by hand next to the Go text. The bodies of the goroutines started with
  \<^verbatim>\<open>go\<close> are functions of their own; starting one is an observable event.

  \<^verbatim>\<open>sync.Mutex\<close>: \<^verbatim>\<open>SendJson\<close> and the heartbeat take \<^verbatim>\<open>mu\<close> around a write. No path
  of one goroutine takes it twice. The functions named after the methods are the
  methods as a goroutine runs them when it finds \<^verbatim>\<open>mu\<close> free at every \<^verbatim>\<open>Lock\<close>; what
  \<^verbatim>\<open>Lock\<close> does when another goroutine holds \<^verbatim>\<open>mu\<close> is the subject of the section on
  the held lock.
\<close>

subsection \<open>Values\<close>

text \<open>
  What \<^verbatim>\<open>interface{}\<close> holds after \<^verbatim>\<open>json.Unmarshal\<close>: nil, bool, float64, string,
  \<^verbatim>\<open>[]interface{}\<close> and \<^verbatim>\<open>map[string]interface{}\<close>. A Go map is kept as an association
  list that is only ever read through \<open>index\<close>.
\<close>

datatype jvalue =
    JNil
  | JBool bool
  | JNumber rat
  | JString string
  | JArray "jvalue list"
  | JObject "(string \<times> jvalue) list"

text \<open>\<^verbatim>\<open>m[k]\<close> on a Go map: the zero value (a nil interface) when the key is missing.\<close>

definition index :: "(string \<times> jvalue) list \<Rightarrow> string \<Rightarrow> jvalue" where
  "index m k = (case map_of m k of None \<Rightarrow> JNil | Some v \<Rightarrow> v)"

text \<open>\<^verbatim>\<open>structures.Config\<close>, with the fields this package reads.\<close>

record config =
  PublicKey :: string
  PrivateKey :: string
  Name :: string

text \<open>
  \<^verbatim>\<open>type Transporter struct\<close>. A \<^verbatim>\<open>*websocket.Conn\<close> is the number of the connection it
  points to, a \<^verbatim>\<open>*time.Ticker\<close> is its period in seconds, and \<open>None\<close> is \<^verbatim>\<open>nil\<close>.
\<close>

type_synonym conn = nat

record transporter =
  Config :: config
  Version :: string
  Hostname :: string
  ServerName :: string
  Node :: string
  ws :: "conn option"
  isConnected :: bool
  isHandling :: bool
  isConnecting :: bool
  isClosed :: bool
  wsNode :: "string option"
  heartbeatTicker :: "nat option"
  serverTicker :: "nat option"

definition NewTransporter :: "config \<Rightarrow> string \<Rightarrow> string \<Rightarrow> string \<Rightarrow> string \<Rightarrow> transporter" where
  "NewTransporter config version hostname serverName node =
     \<lparr>Config = config, Version = version, Hostname = hostname, ServerName = serverName,
      Node = node, ws = None, isConnected = False, isHandling = False, isConnecting = False,
      isClosed = False, wsNode = None, heartbeatTicker = None, serverTicker = None\<rparr>"

text \<open>
  \<^verbatim>\<open>type Message struct\<close> and the \<^verbatim>\<open>PayLoad\<close> and \<^verbatim>\<open>structures.Process\<close> it carries.
  The last two are declared in other files; their fields are the ones the composite
  literal in \<^verbatim>\<open>Send\<close> names. The same holds for \<^verbatim>\<open>Verify\<close>, \<^verbatim>\<open>VerifyData\<close> and
  \<^verbatim>\<open>VerifyResponse\<close> in \<^verbatim>\<open>GetServer\<close>.
\<close>

record process =
  PmID :: int
  proc_Name :: string
  proc_Server :: string

record payload =
  At :: int
  Process :: process
  Data :: jvalue
  Active :: bool
  pl_ServerName :: string
  Protected :: bool
  RevCon :: bool
  InternalIP :: string

record message =
  Payload :: payload
  Channel :: string

text \<open>What \<^verbatim>\<open>SendJson(msg interface{})\<close> is called with in this file: a \<^verbatim>\<open>Message\<close> or a map.\<close>

datatype go_msg = MsgMessage message | MsgValue jvalue

text \<open>The body of the discovery request (\<^verbatim>\<open>Verify\<close>, \<^verbatim>\<open>VerifyData\<close>) and of its answer.\<close>

record verify_data =
  MachineName :: string
  Cpus :: nat
  Memory :: nat
  Pm2Version :: string
  vd_Hostname :: string

record verify =
  PublicId :: string
  PrivateId :: string
  vf_Data :: verify_data

record endpoints =
  WS :: string

record verify_response =
  Endpoints :: endpoints

subsection \<open>The outside world\<close>

text \<open>The four closures started with \<^verbatim>\<open>go\<close>, by the line that starts them.\<close>

datatype task =
    GoRetryConnect
  | GoRefresh
  | GoMessagesHandler
  | GoHeartbeat

text \<open>
  What the program does to the world, in order: requests, dials, sleeps, goroutines
  started, handles closed, frames and pings written, lines logged. A write is recorded
  with the handle the field holds. Calls that only configure a handle
  (\<^verbatim>\<open>SetCloseHandler\<close>, \<^verbatim>\<open>SetWriteDeadline\<close>) or release the response body leave no
  event.
\<close>

datatype event =
    EvPost string verify
  | EvDial string "(string \<times> string) list"
  | EvSleep nat
  | EvGo task
  | EvClose "conn option"
  | EvWriteText "conn option" string
  | EvWritePing "conn option"
  | EvLog string

text \<open>
  What the world answers. \<open>posts\<close>: the outcome of each discovery exchange
  (\<^verbatim>\<open>http.Post\<close> then \<^verbatim>\<open>ioutil.ReadAll\<close>); \<open>dials\<close>: of each \<^verbatim>\<open>Dial\<close> (\<open>None\<close> is an
  error); \<open>writes\<close>: of each \<^verbatim>\<open>WriteMessage\<close> (\<open>True\<close> is a nil error); \<open>reads\<close>: of
  each \<^verbatim>\<open>ReadMessage\<close> (\<open>None\<close> is an error). Each call takes the head of its list. A
  call that finds its list empty ends the run with \<open>Starved\<close>: the script was too
  short to say what the program does next.
\<close>

datatype http_result = PostError | ReadAllError | Body string

record world =
  posts :: "http_result list"
  dials :: "conn option list"
  writes :: "bool list"
  reads :: "string option list"
  observed :: "event list"

definition emit :: "event \<Rightarrow> world \<Rightarrow> world" where
  "emit e w = w\<lparr>observed := observed w @ [e]\<rparr>"

text \<open>
  Code that is called here and lives elsewhere: \<^verbatim>\<open>encoding/json\<close> (\<open>None\<close> is a
  non-nil \<^verbatim>\<open>err\<close>; \<open>json_Unmarshal\<close> fills a \<^verbatim>\<open>map[string]interface{}\<close>,
  \<open>json_Unmarshal_verify\<close> fills the \<^verbatim>\<open>VerifyResponse\<close> it is given),
  \<^verbatim>\<open>runtime.NumCPU\<close>, \<^verbatim>\<open>metrics.TotalMem\<close>, \<^verbatim>\<open>metrics.LocalIP\<close>, the clock (milliseconds,
  read against what has happened so far) and the table of actions.
\<close>

record action =
  ActionName :: string
  Callback :: "string option"

record lib =
  json_Marshal :: "go_msg \<Rightarrow> string option"
  json_Unmarshal :: "string \<Rightarrow> (string \<times> jvalue) list option"
  json_Unmarshal_verify :: "string \<Rightarrow> verify_response \<Rightarrow> verify_response option"
  NumCPU :: nat
  TotalMem :: nat
  LocalIP :: string
  UnixMilli :: "event list \<Rightarrow> int"
  actions :: "action list"

text \<open>How a call ends: it returns, it panics, or the script ran out.\<close>

datatype panic = NilDereference | TypeAssertion | UnmarshalError

datatype 'a run = Return 'a transporter world | Panic panic | Starved

definition bind :: "'a run \<Rightarrow> ('a \<Rightarrow> transporter \<Rightarrow> world \<Rightarrow> 'b run) \<Rightarrow> 'b run" where
  "bind r f = (case r of Return a t w \<Rightarrow> f a t w | Panic p \<Rightarrow> Panic p | Starved \<Rightarrow> Starved)"

subsection \<open>GetServer\<close>

definition verify_of :: "lib \<Rightarrow> transporter \<Rightarrow> verify" where
  "verify_of L t =
     \<lparr>PublicId = PublicKey (Config t), PrivateId = PrivateKey (Config t),
      vf_Data = \<lparr>MachineName = ServerName t, Cpus = NumCPU L, Memory = TotalMem L,
                 Pm2Version = Version t, vd_Hostname = Hostname t\<rparr>\<rparr>"

text \<open>The composite literal \<^verbatim>\<open>VerifyResponse{}\<close>: every field at its zero value.\<close>

definition VerifyResponse_zero :: verify_response where
  "VerifyResponse_zero = \<lparr>Endpoints = \<lparr>WS = []\<rparr>\<rparr>"

definition GetServer :: "lib \<Rightarrow> transporter \<Rightarrow> world \<Rightarrow> string option run" where
  "GetServer L t w =
     (case posts w of
        [] \<Rightarrow> Starved
      | r # rs \<Rightarrow>
          let w1 = emit (EvPost (''https://'' @ Node t @ ''/api/node/verifyPM2'') (verify_of L t))
                     (w\<lparr>posts := rs\<rparr>)
          in (case r of
                PostError \<Rightarrow> Return None t w1
              | ReadAllError \<Rightarrow> Return None t w1
              | Body data \<Rightarrow>
                  (case json_Unmarshal_verify L data VerifyResponse_zero of
                     None \<Rightarrow> Return None t w1
                   | Some response \<Rightarrow> Return (Some (WS (Endpoints response))) t w1)))"

subsection \<open>Connect, SetHandlers and CloseAndReconnect\<close>

definition headers :: "transporter \<Rightarrow> (string \<times> string) list" where
  "headers t =
     [(''X-KM-PUBLIC'', PublicKey (Config t)),
      (''X-KM-SECRET'', PrivateKey (Config t)),
      (''X-KM-SERVER'', ServerName t),
      (''X-PM2-VERSION'', Version t),
      (''X-PROTOCOL-VERSION'', ''1'')]"

text \<open>The close handler that \<^verbatim>\<open>Connect\<close> installs on a new connection.\<close>

definition closeHandler :: "transporter \<Rightarrow> transporter" where
  "closeHandler t = t\<lparr>isClosed := True\<rparr>"

definition SetHandlers :: "transporter \<Rightarrow> world \<Rightarrow> transporter \<times> world" where
  "SetHandlers t w =
     (t\<lparr>isHandling := True\<rparr>, emit (EvGo GoHeartbeat) (emit (EvGo GoMessagesHandler) w))"

text \<open>
  The first two statements of \<^verbatim>\<open>Connect\<close>: fill \<^verbatim>\<open>wsNode\<close> from \<^verbatim>\<open>GetServer\<close> when it
  is nil.
\<close>

definition resolve :: "lib \<Rightarrow> transporter \<Rightarrow> world \<Rightarrow> unit run" where
  "resolve L t w =
     (if wsNode t = None
      then bind (GetServer L t w) (\<lambda>srv _ w'. Return () (t\<lparr>wsNode := srv\<rparr>) w')
      else Return () t w)"

text \<open>
  \<^verbatim>\<open>Connect\<close> and \<^verbatim>\<open>CloseAndReconnect\<close> call each other: a failed dial clears the guard
  and reconnects. Every turn of that cycle takes one answer from \<open>dials\<close>.
  \<^verbatim>\<open>transporter.ws.Close()\<close> is called on the handle without a test: on a nil
  \<^verbatim>\<open>*websocket.Conn\<close> it is a nil pointer dereference.
\<close>

function Connect :: "lib \<Rightarrow> transporter \<Rightarrow> world \<Rightarrow> unit run"
  and CloseAndReconnect :: "lib \<Rightarrow> transporter \<Rightarrow> world \<Rightarrow> unit run" where
  "Connect L t w =
     (case resolve L t w of
        Panic p \<Rightarrow> Panic p
      | Starved \<Rightarrow> Starved
      | Return _ t1 w1 \<Rightarrow>
          (case wsNode t1 of
             None \<Rightarrow> Return () t1 (emit (EvGo GoRetryConnect) w1)
           | Some node \<Rightarrow>
               (case dials w1 of
                  [] \<Rightarrow> Starved
                | d # ds \<Rightarrow>
                    (let w2 = emit (EvDial node (headers t1)) (w1\<lparr>dials := ds\<rparr>)
                     in case d of
                          None \<Rightarrow>
                            CloseAndReconnect L (t1\<lparr>isConnecting := False\<rparr>) (emit (EvSleep 2) w2)
                        | Some c \<Rightarrow>
                            (let t2 = t1\<lparr>isConnected := True, isConnecting := False, ws := Some c\<rparr>;
                                 (t3, w3) = (if \<not> isHandling t2 then SetHandlers t2 w2 else (t2, w2))
                             in Return () t3 (emit (EvGo GoRefresh) w3))))))"
| "CloseAndReconnect L t w =
     (if isConnecting t then Return () t w
      else if \<not> isClosed t \<and> ws t = None then Panic NilDereference
      else Connect L (t\<lparr>isConnected := False, isConnecting := True\<rparr>)
             (if \<not> isClosed t then emit (EvClose (ws t)) w else w))"
  by pat_completeness auto
termination
proof -
  have emit: "dials (emit e w) = dials w" for e w
    by (simp add: emit_def)
  have res: "dials w' = dials w" if "resolve L t w = Return u t' w'" for L t w u t' w'
    using that
    by (auto simp: resolve_def bind_def GetServer_def Let_def emit
        split: if_splits list.splits http_result.splits option.splits)
  show ?thesis
    by (relation "measure (\<lambda>x. case x of
            Inl (L, t, w) \<Rightarrow> 2 * length (dials w)
          | Inr (L, t, w) \<Rightarrow> 2 * length (dials w) + 1)")
       (auto simp: emit dest: res)
qed

subsection \<open>SendJson and Send\<close>

definition SendJson :: "lib \<Rightarrow> go_msg \<Rightarrow> transporter \<Rightarrow> world \<Rightarrow> unit run" where
  "SendJson L msg t w =
     (case json_Marshal L msg of
        None \<Rightarrow> Return () t w
      | Some b \<Rightarrow>
          if \<not> isConnected t then Return () t w
          else (case writes w of
                  [] \<Rightarrow> Starved
                | ok # rest \<Rightarrow>
                    let w1 = emit (EvWriteText (ws t) b) (w\<lparr>writes := rest\<rparr>)
                    in if ok then Return () t w1 else CloseAndReconnect L t w1))"

text \<open>The \<^verbatim>\<open>Message\<close> that \<^verbatim>\<open>Send\<close> builds around its two arguments.\<close>

definition envelope :: "lib \<Rightarrow> transporter \<Rightarrow> world \<Rightarrow> string \<Rightarrow> jvalue \<Rightarrow> message" where
  "envelope L t w channel data =
     \<lparr>Payload =
        \<lparr>At = UnixMilli L (observed w),
         Process = \<lparr>PmID = 0, proc_Name = Name (Config t), proc_Server = ServerName t\<rparr>,
         Data = data,
         Active = True,
         pl_ServerName = ServerName t,
         Protected = False,
         RevCon = True,
         InternalIP = LocalIP L\<rparr>,
      Channel = channel\<rparr>"

definition Send :: "lib \<Rightarrow> string \<Rightarrow> jvalue \<Rightarrow> transporter \<Rightarrow> world \<Rightarrow> unit run" where
  "Send L channel data t w = SendJson L (MsgMessage (envelope L t w channel data)) t w"

subsection \<open>The held lock\<close>

text \<open>
  \<^verbatim>\<open>SendJson\<close> marshals, then calls \<^verbatim>\<open>mu.Lock()\<close>, and unlocks when it returns
  (\<^verbatim>\<open>defer\<close>). When another goroutine holds \<^verbatim>\<open>mu\<close>, \<^verbatim>\<open>Lock\<close> waits until that
  goroutine unlocks, and the caller goes on with the transporter and the world as the
  holder leaves them. A \<open>holder\<close> is what the holding goroutine still does before it
  unlocks; \<open>mu_free\<close> is the holder that has nothing left to do. If the holder panics
  the process is gone, and if the script ends under it nothing more is known.
\<close>

type_synonym holder = "transporter \<Rightarrow> world \<Rightarrow> unit run"

definition mu_free :: holder where
  "mu_free t w = Return () t w"

definition SendJson_behind :: "lib \<Rightarrow> holder \<Rightarrow> go_msg \<Rightarrow> transporter \<Rightarrow> world \<Rightarrow> unit run" where
  "SendJson_behind L holder msg t w =
     (case json_Marshal L msg of
        None \<Rightarrow> Return () t w
      | Some b \<Rightarrow>
          bind (holder t w)
            (\<lambda>_ t1 w1.
               if \<not> isConnected t1 then Return () t1 w1
               else (case writes w1 of
                       [] \<Rightarrow> Starved
                     | ok # rest \<Rightarrow>
                         let w2 = emit (EvWriteText (ws t1) b) (w1\<lparr>writes := rest\<rparr>)
                         in if ok then Return () t1 w2 else CloseAndReconnect L t1 w2)))"

definition Send_behind :: "lib \<Rightarrow> holder \<Rightarrow> string \<Rightarrow> jvalue \<Rightarrow> transporter \<Rightarrow> world \<Rightarrow> unit run" where
  "Send_behind L holder channel data t w =
     SendJson_behind L holder (MsgMessage (envelope L t w channel data)) t w"

text \<open>
  The holder that matters: a \<^verbatim>\<open>SendJson\<close> whose write failed has called
  \<^verbatim>\<open>CloseAndReconnect\<close> with \<^verbatim>\<open>mu\<close> still locked, and sits in the two-second sleep of
  \<^verbatim>\<open>Connect\<close> after a failed dial. What it still does before its deferred unlock is
  lines 224 and 225: clear the guard and reconnect.
\<close>

definition after_failed_dial :: "lib \<Rightarrow> holder" where
  "after_failed_dial L t w = CloseAndReconnect L (t\<lparr>isConnecting := False\<rparr>) w"

subsection \<open>The goroutines\<close>

text \<open>
  A goroutine of this file is a \<^verbatim>\<open>for\<close> loop that waits (for a ticker, for a frame)
  and then runs its body. \<open>loop n body\<close> runs the body for the first \<open>n\<close> wake-ups;
  the body says whether the goroutine is still in its loop or has returned.
\<close>

datatype status = Running | Exited

fun loop :: "nat \<Rightarrow> (transporter \<Rightarrow> world \<Rightarrow> status run) \<Rightarrow> transporter \<Rightarrow> world \<Rightarrow> status run" where
  "loop 0 body t w = Return Running t w"
| "loop (Suc n) body t w =
     bind (body t w)
       (\<lambda>s t' w'. case s of Running \<Rightarrow> loop n body t' w' | Exited \<Rightarrow> Return Exited t' w')"

text \<open>Lines 207 to 210: the retry that \<^verbatim>\<open>Connect\<close> starts when there is no endpoint.\<close>

definition RetryGoroutine :: "lib \<Rightarrow> transporter \<Rightarrow> world \<Rightarrow> unit run" where
  "RetryGoroutine L t w = Connect L t (emit (EvSleep 10) w)"

text \<open>
  Lines 242 to 255: the endpoint refresh. \<^verbatim>\<open>*srv != *transporter.wsNode\<close> reads through
  both pointers, the left one first.
\<close>

definition refresh_tick :: "lib \<Rightarrow> transporter \<Rightarrow> world \<Rightarrow> status run" where
  "refresh_tick L t w =
     bind (GetServer L t w)
       (\<lambda>srv t1 w1.
          case srv of
            None \<Rightarrow> Panic NilDereference
          | Some new \<Rightarrow>
              (case wsNode t1 of
                 None \<Rightarrow> Panic NilDereference
               | Some cached \<Rightarrow>
                   if new \<noteq> cached
                   then bind (CloseAndReconnect L (t1\<lparr>wsNode := srv\<rparr>) w1)
                          (\<lambda>_ t2 w2. Return Running t2 w2)
                   else Return Running t1 w1))"

definition RefreshGoroutine :: "lib \<Rightarrow> nat \<Rightarrow> transporter \<Rightarrow> world \<Rightarrow> status run" where
  "RefreshGoroutine L n t w =
     (if serverTicker t \<noteq> None then Return Exited t w
      else loop n (refresh_tick L) (t\<lparr>serverTicker := Some (10 * 60)\<rparr>) w)"

text \<open>Lines 263 to 278: the heartbeat.\<close>

definition heartbeat_tick :: "lib \<Rightarrow> transporter \<Rightarrow> world \<Rightarrow> status run" where
  "heartbeat_tick L t w =
     (case writes w of
        [] \<Rightarrow> Starved
      | ok # rest \<Rightarrow>
          let w1 = emit (EvWritePing (ws t)) (w\<lparr>writes := rest\<rparr>)
          in if ok then Return Running t w1
             else bind (CloseAndReconnect L t w1) (\<lambda>_ t2 w2. Return Exited t2 w2))"

definition HeartbeatGoroutine :: "lib \<Rightarrow> nat \<Rightarrow> transporter \<Rightarrow> world \<Rightarrow> status run" where
  "HeartbeatGoroutine L n t w =
     (if heartbeatTicker t \<noteq> None then Return Exited t w
      else loop n (heartbeat_tick L) (t\<lparr>heartbeatTicker := Some 5\<rparr>) w)"

subsection \<open>MessagesHandler\<close>

text \<open>
  Modelled from the spec: \<^verbatim>\<open>CallAction\<close>, which \<^verbatim>\<open>MessagesHandler\<close> calls and which is
  declared in another file of the package. The spec gives the registry as
  \<^verbatim>\<open>lookup(name) -> callback|absent\<close> and \<^verbatim>\<open>invoke() -> string\<close>, an action as a name
  with an optional callback, and says that an absent callback yields an empty result,
  not a fault. A callback is kept as the string it returns.
\<close>

definition CallAction :: "lib \<Rightarrow> string \<Rightarrow> (string \<times> jvalue) list \<Rightarrow> jvalue" where
  "CallAction L name payload =
     (case find (\<lambda>a. ActionName a = name) (actions L) of
        None \<Rightarrow> JNil
      | Some a \<Rightarrow> (case Callback a of None \<Rightarrow> JNil | Some s \<Rightarrow> JString s))"

definition registered :: "lib \<Rightarrow> string \<Rightarrow> bool" where
  "registered L name = (find (\<lambda>a. ActionName a = name) (actions L) \<noteq> None)"

text \<open>The two maps that the \<^verbatim>\<open>trigger:action\<close> branch sends, and the one of \<^verbatim>\<open>startLogging\<close>.\<close>

definition success_data :: "(string \<times> jvalue) list \<Rightarrow> jvalue \<Rightarrow> jvalue" where
  "success_data payload name =
     JObject [(''success'', JBool True), (''id'', index payload ''process_id''),
              (''action_name'', name)]"

definition reply_data :: "jvalue \<Rightarrow> jvalue \<Rightarrow> jvalue" where
  "reply_data name response = JObject [(''action_name'', name), (''return'', response)]"

definition pm2_result :: jvalue where
  "pm2_result =
     JObject [(''channel'', JString ''trigger:pm2:result''),
              (''payload'', JObject [(''ret'', JObject [(''err'', JNil)])])]"

text \<open>One turn of the \<^verbatim>\<open>for\<close> loop of \<^verbatim>\<open>MessagesHandler\<close>, from \<^verbatim>\<open>ReadMessage\<close> on.\<close>

definition MessagesHandler_step :: "lib \<Rightarrow> transporter \<Rightarrow> world \<Rightarrow> status run" where
  "MessagesHandler_step L t w =
     (case reads w of
        [] \<Rightarrow> Starved
      | r # rs \<Rightarrow>
          (case r of
             None \<Rightarrow>
               bind (CloseAndReconnect L (t\<lparr>isHandling := False\<rparr>) (w\<lparr>reads := rs\<rparr>))
                 (\<lambda>_ t1 w1. Return Exited t1 w1)
           | Some message \<Rightarrow>
               (case json_Unmarshal L message of
                  None \<Rightarrow> Panic UnmarshalError
                | Some dat \<Rightarrow>
                    if index dat ''channel'' = JString ''trigger:action'' then
                      (case index dat ''payload'' of
                         JObject payload \<Rightarrow>
                           (case index payload ''action_name'' of
                              JString name \<Rightarrow>
                                (let response = CallAction L name payload
                                 in bind (Send L ''trigger:action:success''
                                            (success_data payload (JString name)) t (w\<lparr>reads := rs\<rparr>))
                                      (\<lambda>_ t1 w1.
                                         bind (Send L ''axm:reply''
                                                 (reply_data (JString name) response) t1 w1)
                                           (\<lambda>_ t2 w2. Return Running t2 w2)))
                            | _ \<Rightarrow> Panic TypeAssertion)
                       | _ \<Rightarrow> Panic TypeAssertion)
                    else if index dat ''channel'' = JString ''trigger:pm2:action'' then
                      (case index dat ''payload'' of
                         JObject payload \<Rightarrow>
                           if index payload ''method_name'' = JString ''startLogging''
                           then bind (SendJson L (MsgValue pm2_result) t (w\<lparr>reads := rs\<rparr>))
                                  (\<lambda>_ t1 w1. Return Running t1 w1)
                           else Return Running t (w\<lparr>reads := rs\<rparr>)
                       | _ \<Rightarrow> Panic TypeAssertion)
                    else
                      (case index dat ''channel'' of
                         JString c \<Rightarrow>
                           Return Running t (emit (EvLog (''msg not registered: '' @ c)) (w\<lparr>reads := rs\<rparr>))
                       | _ \<Rightarrow> Panic TypeAssertion))))"

definition MessagesHandler :: "lib \<Rightarrow> nat \<Rightarrow> transporter \<Rightarrow> world \<Rightarrow> status run" where
  "MessagesHandler L n t w = loop n (MessagesHandler_step L) t w"

text \<open>The frames written so far, oldest first.\<close>

fun frames :: "event list \<Rightarrow> string list" where
  "frames [] = []"
| "frames (EvWriteText c b # es) = b # frames es"
| "frames (e # es) = frames es"

text \<open>The goroutines started so far, oldest first.\<close>

fun started :: "event list \<Rightarrow> task list" where
  "started [] = []"
| "started (EvGo k # es) = k # started es"
| "started (e # es) = started es"

text \<open>The addresses dialled so far, oldest first.\<close>

fun dialled :: "event list \<Rightarrow> string list" where
  "dialled [] = []"
| "dialled (EvDial a h # es) = a # dialled es"
| "dialled (e # es) = dialled es"

text \<open>Reading a key of a value that may or may not be a map.\<close>

definition field :: "jvalue \<Rightarrow> string \<Rightarrow> jvalue" where
  "field v k = (case v of JObject m \<Rightarrow> index m k | _ \<Rightarrow> JNil)"

text \<open>The frames a finished call has left on the wire.\<close>

definition written :: "'a run \<Rightarrow> string list" where
  "written r = (case r of Return a t w \<Rightarrow> frames (observed w) | Panic p \<Rightarrow> [] | Starved \<Rightarrow> [])"

text \<open>The world after one discovery exchange: one answer taken, one request seen.\<close>

definition polled :: "lib \<Rightarrow> transporter \<Rightarrow> world \<Rightarrow> http_result list \<Rightarrow> world" where
  "polled L t w rs =
     w\<lparr>posts := rs,
       observed := observed w @
         [EvPost (''https://'' @ Node t @ ''/api/node/verifyPM2'') (verify_of L t)]\<rparr>"

subsection \<open>The program of main.go as data\<close>

text \<open>
  The configuration and the actions that \<^verbatim>\<open>main\<close> registers, a stand-in for
  \<^verbatim>\<open>encoding/json\<close> that knows the four bodies used below, and the states of one
  transporter: new, up (after a first connection, both tickers set), and down (what
  \<^verbatim>\<open>CloseAndReconnect\<close> hands to \<^verbatim>\<open>Connect\<close>, and what the handler finds when another
  goroutine began the reconnection while the callback of an action was running).
\<close>

definition cfg0 :: config where
  "cfg0 = \<lparr>PublicKey = ''9nc25845w31vqeq'', PrivateKey = ''1e34mwmtaid0pr7'',
           Name = ''Golang App''\<rparr>"

definition action_frame :: "(string \<times> jvalue) list" where
  "action_frame =
     [(''channel'', JString ''trigger:action''),
      (''payload'', JObject [(''action_name'', JString ''Test''), (''process_id'', JNumber 0)])]"

definition L0 :: lib where
  "L0 = \<lparr>json_Marshal =
           (\<lambda>m. case m of MsgMessage e \<Rightarrow> Some (Channel e) | MsgValue v \<Rightarrow> Some ''map''),
         json_Unmarshal = (\<lambda>s. if s = ''action'' then Some action_frame else None),
         json_Unmarshal_verify =
           (\<lambda>s r. if s = ''ws'' then Some (r\<lparr>Endpoints := \<lparr>WS = ''wss://omicron''\<rparr>\<rparr>)
                  else if s = ''{}'' then Some r
                  else None),
         NumCPU = 4, TotalMem = 8, LocalIP = ''10.0.0.1'',
         UnixMilli = (\<lambda>es. int (length es)),
         actions = [\<lparr>ActionName = ''Test'', Callback = Some ''I am the test answer''\<rparr>,
                    \<lparr>ActionName = ''Tric'', Callback = None\<rparr>]\<rparr>"

definition t_new :: transporter where
  "t_new = NewTransporter cfg0 ''1.0'' ''host'' ''server'' ''omicron.keymetrics.io''"

definition t_up :: transporter where
  "t_up = t_new\<lparr>ws := Some 1, isConnected := True, isHandling := True,
                 wsNode := Some ''wss://omicron'', heartbeatTicker := Some 5,
                 serverTicker := Some 600\<rparr>"

definition t_down :: transporter where
  "t_down = t_up\<lparr>isConnected := False, isConnecting := True\<rparr>"

definition w0 :: world where
  "w0 = \<lparr>posts = [], dials = [], writes = [], reads = [], observed = []\<rparr>"

definition w_action :: world where
  "w_action = w0\<lparr>reads := [Some ''action''], writes := [True, True]\<rparr>"

text \<open>
  A send on the connected transporter whose write fails, with a first dial that fails
  and a second that succeeds; and the world as a second goroutine finds it while the
  first sleeps after the failed dial, the lock in its hands.
\<close>

definition w_failing :: world where
  "w_failing = w0\<lparr>writes := [False, True], dials := [None, Some 2]\<rparr>"

definition w_asleep :: world where
  "w_asleep =
     w0\<lparr>writes := [True], dials := [Some 2],
        observed := [EvWriteText (Some 1) ''map'', EvClose (Some 1),
                     EvDial ''wss://omicron'' (headers t_up), EvSleep 2]\<rparr>"

definition w_awake :: world where
  "w_awake =
     w0\<lparr>observed := [EvWriteText (Some 1) ''map'', EvClose (Some 1),
                     EvDial ''wss://omicron'' (headers t_up), EvSleep 2,
                     EvClose (Some 1), EvDial ''wss://omicron'' (headers t_up),
                     EvGo GoRefresh, EvWriteText (Some 2) ''axm:monitor'']\<rparr>"

text \<open>
  What \<^verbatim>\<open>json.Unmarshal\<close> does with a body and a \<^verbatim>\<open>*VerifyResponse\<close>, by the
  documentation of \<^verbatim>\<open>encoding/json\<close>: the body has to be valid JSON; \<^verbatim>\<open>null\<close> leaves
  the target as it is; an object fills the fields whose keys it has and skips the
  others; a value of another kind than the target (an array for a struct, a number for
  a string) is an error. The keys are \<^verbatim>\<open>endpoints\<close> and \<^verbatim>\<open>ws\<close>, as the spec names
  them. \<open>json_value\<close> gives the value of the JSON texts used below (\<open>None\<close>: not
  valid JSON), and \<open>L1\<close> is \<open>L0\<close> with this decoder.
\<close>

definition store_ws :: "jvalue \<Rightarrow> endpoints \<Rightarrow> endpoints option" where
  "store_ws v e =
     (case v of JNil \<Rightarrow> Some e | JString a \<Rightarrow> Some (e\<lparr>WS := a\<rparr>) | _ \<Rightarrow> None)"

definition store_endpoints :: "jvalue \<Rightarrow> endpoints \<Rightarrow> endpoints option" where
  "store_endpoints v e =
     (case v of
        JNil \<Rightarrow> Some e
      | JObject m \<Rightarrow> (case map_of m ''ws'' of None \<Rightarrow> Some e | Some x \<Rightarrow> store_ws x e)
      | _ \<Rightarrow> None)"

definition store_verify :: "jvalue \<Rightarrow> verify_response \<Rightarrow> verify_response option" where
  "store_verify v r =
     (case v of
        JNil \<Rightarrow> Some r
      | JObject m \<Rightarrow>
          (case map_of m ''endpoints'' of
             None \<Rightarrow> Some r
           | Some x \<Rightarrow> map_option (\<lambda>e. r\<lparr>Endpoints := e\<rparr>) (store_endpoints x (Endpoints r)))
      | _ \<Rightarrow> None)"

definition json_value :: "string \<Rightarrow> jvalue option" where
  "json_value s =
     (if s = ''[]'' then Some (JArray [])
      else if s = ''{}'' then Some (JObject [])
      else if s = ''null'' then Some JNil
      else None)"

definition L1 :: lib where
  "L1 = L0\<lparr>json_Unmarshal_verify :=
             (\<lambda>s r. case json_value s of None \<Rightarrow> None | Some v \<Rightarrow> store_verify v r)\<rparr>"

section \<open>Properties\<close>

subsection \<open>Auxiliary facts\<close>

lemmas ex_defs = cfg0_def action_frame_def L0_def t_new_def t_up_def t_down_def w0_def
  w_action_def NewTransporter_def VerifyResponse_zero_def

lemma dialled_append: "dialled (xs @ ys) = dialled xs @ dialled ys"
  by (induction xs rule: dialled.induct) simp_all

lemma frames_append: "frames (xs @ ys) = frames xs @ frames ys"
  by (induction xs rule: frames.induct) simp_all

lemma started_append: "started (xs @ ys) = started xs @ started ys"
  by (induction xs rule: started.induct) simp_all

lemma index_action_frame:
  "index action_frame ''channel'' = JString ''trigger:action''"
  "index action_frame ''payload''
     = JObject [(''action_name'', JString ''Test''), (''process_id'', JNumber 0)]"
  "index [(''action_name'', JString ''Test''), (''process_id'', JNumber 0)] ''action_name''
     = JString ''Test''"
  by (simp_all add: index_def action_frame_def)

text \<open>
  The state called \<open>t_up\<close> is the one a first successful \<^verbatim>\<open>Connect\<close> leaves once the
  heartbeat and the refresh goroutine have reached their loops.
\<close>

lemma t_up_reachable:
  "\<exists>w'. bind (Connect L0 t_new (w0\<lparr>posts := [Body ''ws''], dials := [Some 1]\<rparr>))
           (\<lambda>_ t w. bind (HeartbeatGoroutine L0 0 t w) (\<lambda>_ t w. RefreshGoroutine L0 0 t w))
         = Return Running t_up w' \<and>
         started (observed w') = [GoMessagesHandler, GoHeartbeat, GoRefresh]"
  by (simp add: ex_defs resolve_def GetServer_def bind_def emit_def SetHandlers_def
      HeartbeatGoroutine_def RefreshGoroutine_def)

lemma resolve_ticker:
  "resolve L t w = Return u t' w' \<Longrightarrow> heartbeatTicker t' = heartbeatTicker t"
  by (auto simp: resolve_def bind_def GetServer_def Let_def
      split: if_splits list.splits http_result.splits option.splits)

text \<open>
  No statement of \<^verbatim>\<open>Connect\<close>, \<^verbatim>\<open>SetHandlers\<close> or \<^verbatim>\<open>CloseAndReconnect\<close> assigns
  \<^verbatim>\<open>heartbeatTicker\<close>: whatever the reconnection does, the field is what it was.
\<close>

lemma ticker_kept:
  "Connect L t w = Return u t' w' \<longrightarrow> heartbeatTicker t' = heartbeatTicker t"
  "CloseAndReconnect L t w = Return u t' w' \<longrightarrow> heartbeatTicker t' = heartbeatTicker t"
proof (induction L t w and L t w rule: Connect_CloseAndReconnect.induct)
  case (1 L t w)
  note unfold = Connect.simps [of L t w]
  show ?case
  proof
    assume a: "Connect L t w = Return u t' w'"
    show "heartbeatTicker t' = heartbeatTicker t"
    proof (cases "resolve L t w")
      case (Return x t1 w1)
      note r = this
      have h1: "heartbeatTicker t1 = heartbeatTicker t"
        using resolve_ticker [OF r] .
      show ?thesis
      proof (cases "wsNode t1")
        case None
        with a r h1 show ?thesis
          by (simp del: Connect.simps CloseAndReconnect.simps add: unfold)
      next
        case (Some node)
        note n = this
        show ?thesis
        proof (cases "dials w1")
          case Nil
          with a r n show ?thesis
            by (simp del: Connect.simps CloseAndReconnect.simps add: unfold)
        next
          case (Cons d ds)
          note c = this
          show ?thesis
          proof (cases d)
            case None
            with a r n c have "CloseAndReconnect L (t1\<lparr>isConnecting := False\<rparr>)
                (emit (EvSleep 2) (emit (EvDial node (headers t1)) (w1\<lparr>dials := ds\<rparr>)))
                = Return u t' w'"
              by (simp del: Connect.simps CloseAndReconnect.simps add: unfold)
            with "1.IH" [OF r n c refl None] h1 show ?thesis
              by (simp del: Connect.simps CloseAndReconnect.simps)
          next
            case (Some cn)
            with a r n c h1 show ?thesis
              by (auto simp del: Connect.simps CloseAndReconnect.simps
                  simp add: unfold Let_def SetHandlers_def split: if_splits)
          qed
        qed
      qed
    next
      case (Panic p)
      with a show ?thesis
        by (simp del: Connect.simps CloseAndReconnect.simps add: unfold)
    next
      case Starved
      with a show ?thesis
        by (simp del: Connect.simps CloseAndReconnect.simps add: unfold)
    qed
  qed
next
  case (2 L t w)
  then show ?case
    by (auto simp del: Connect.simps CloseAndReconnect.simps
        simp add: CloseAndReconnect.simps [of L t w] split: if_splits)
qed

lemma t_down_reachable:
  "CloseAndReconnect L t_up w = Connect L t_down (emit (EvClose (Some 1)) w)"
  by (simp add: ex_defs)

subsection \<open>CloseAndReconnect\<close>

text \<open>
  What \<^verbatim>\<open>CloseAndReconnect\<close> does where it has a handle to close or none to close:
  with \<^verbatim>\<open>isConnecting\<close> set it returns at once, the transporter and the world as given;
  with the flag clear it closes \<^verbatim>\<open>ws\<close> unless \<^verbatim>\<open>isClosed\<close> is set, and is the call of
  \<^verbatim>\<open>Connect\<close> on the transporter with \<^verbatim>\<open>isConnected\<close> false and \<^verbatim>\<open>isConnecting\<close> true.
\<close>

lemma CloseAndReconnect_with_handle:
  "(isConnecting t \<longrightarrow> CloseAndReconnect L t w = Return () t w) \<and>
   (\<not> isConnecting t \<and> (isClosed t \<or> ws t \<noteq> None) \<longrightarrow>
      CloseAndReconnect L t w =
        Connect L (t\<lparr>isConnected := False, isConnecting := True\<rparr>)
          (if isClosed t then w else emit (EvClose (ws t)) w))"
  by auto

text \<open>
  C1. The property asks that, with the guard clear, the call close the stream unless the
  peer did, set the two flags and call \<^verbatim>\<open>Connect\<close>. The code calls \<^verbatim>\<open>Close\<close> on the
  handle without looking at it. With \<^verbatim>\<open>ws\<close> nil and \<^verbatim>\<open>isClosed\<close> clear, which is how a
  new transporter stands when its first dial fails, the call with the guard clear
  panics on the nil handle: no flag is set and \<^verbatim>\<open>Connect\<close> is not called; and a
  \<^verbatim>\<open>Connect\<close> whose dial fails ends in that panic.
\<close>

theorem CloseAndReconnect_nil_handle_panics:
  assumes "ws t = None" and "\<not> isClosed t"
  shows "(\<not> isConnecting t \<longrightarrow> CloseAndReconnect L t w = Panic NilDereference) \<and>
         (wsNode t = Some node \<and> dials w = None # ds \<longrightarrow>
            Connect L t w = Panic NilDereference)"
  using assms by (simp add: resolve_def)

theorem CloseAndReconnect_nil_handle_panics_witness:
  "ws t_new = None \<and> \<not> isClosed t_new \<and> \<not> isConnecting t_new \<and>
   CloseAndReconnect L0 t_new w0 = Panic NilDereference \<and>
   Connect L0 (t_new\<lparr>wsNode := Some ''wss://omicron''\<rparr>) (w0\<lparr>dials := [None, Some 1]\<rparr>)
     = Panic NilDereference \<and>
   Connect L0 t_new (w0\<lparr>posts := [Body ''ws''], dials := [None, Some 1]\<rparr>)
     = Panic NilDereference"
proof -
  have a: "ws t_new = None" "\<not> isClosed t_new" "\<not> isConnecting t_new"
    "ws (t_new\<lparr>wsNode := Some ''wss://omicron''\<rparr>) = None"
    "\<not> isClosed (t_new\<lparr>wsNode := Some ''wss://omicron''\<rparr>)"
    by (simp_all add: ex_defs)
  have b: "Connect L0 t_new (w0\<lparr>posts := [Body ''ws''], dials := [None, Some 1]\<rparr>)
      = Panic NilDereference"
    by (simp add: ex_defs resolve_def GetServer_def bind_def emit_def)
  from CloseAndReconnect_nil_handle_panics [OF a(1) a(2), where L = L0 and w = w0]
    CloseAndReconnect_nil_handle_panics [OF a(4) a(5), where L = L0
      and w = "w0\<lparr>dials := [None, Some 1]\<rparr>" and node = "''wss://omicron''" and ds = "[Some 1]"]
    a b
  show ?thesis
    by (simp del: Connect.simps CloseAndReconnect.simps)
qed

subsection \<open>Send\<close>

text \<open>
  With the lock free: for every channel and every payload, \<^verbatim>\<open>Send\<close> on a transporter
  that is not connected returns with the transporter and the world it was given.
  Nothing is written and no answer of the world is used up.
\<close>

lemma Send_lock_free_disconnected:
  "\<not> isConnected t \<Longrightarrow> Send L channel data t w = Return () t w"
  by (simp add: Send_def SendJson_def split: option.splits)

lemma SendJson_behind_mu_free: "SendJson_behind L mu_free msg t w = SendJson L msg t w"
  by (simp add: SendJson_behind_def SendJson_def mu_free_def bind_def
      del: Connect.simps CloseAndReconnect.simps split: option.splits)

lemma Send_behind_mu_free: "Send_behind L mu_free channel data t w = Send L channel data t w"
  by (simp add: Send_behind_def Send_def SendJson_behind_mu_free)

text \<open>
  The world called \<open>w_asleep\<close> is where the failing send stands during its sleep: the
  whole call is the holder run from there.
\<close>

lemma w_asleep_reachable:
  "SendJson L0 (MsgValue pm2_result) t_up w_failing = after_failed_dial L0 t_down w_asleep"
  by (simp add: SendJson_def after_failed_dial_def resolve_def emit_def headers_def ex_defs
      w_failing_def w_asleep_def pm2_result_def)

text \<open>
  C4. The property asks that a send on a transporter that is not connected write
  nothing, not wait, and leave the state as it is. \<^verbatim>\<open>SendJson\<close> takes \<^verbatim>\<open>mu\<close> before it
  looks at \<^verbatim>\<open>isConnected\<close>, and a \<^verbatim>\<open>SendJson\<close> whose write failed keeps \<^verbatim>\<open>mu\<close> through
  the whole reconnection (the heartbeat unlocks before it reconnects). So a send called
  on a transporter that is not connected, behind a holder that leaves it connected,
  returns only after the holder has finished, in the holder's state, and has written
  its frame.
\<close>

theorem Send_behind_holder_writes:
  assumes "\<not> isConnected t"
    and "json_Marshal L (MsgMessage (envelope L t w channel data)) = Some b"
    and "holder t w = Return () t1 w1"
    and "isConnected t1"
    and "writes w1 = True # rest"
  shows "Send_behind L holder channel data t w
           = Return () t1 (w1\<lparr>writes := rest, observed := observed w1 @ [EvWriteText (ws t1) b]\<rparr>) \<and>
         frames (observed (w1\<lparr>writes := rest, observed := observed w1 @ [EvWriteText (ws t1) b]\<rparr>))
           = frames (observed w1) @ [b]"
  using assms
  by (simp add: Send_behind_def SendJson_behind_def bind_def emit_def frames_append)

theorem Send_behind_holder_writes_witness:
  "\<not> isConnected t_down \<and>
   after_failed_dial L0 t_down w_asleep
     = Return () (t_up\<lparr>ws := Some 2\<rparr>)
         (w_awake\<lparr>writes := [True], observed := butlast (observed w_awake)\<rparr>) \<and>
   Send_behind L0 (after_failed_dial L0) ''axm:monitor'' (JObject []) t_down w_asleep
     = Return () (t_up\<lparr>ws := Some 2\<rparr>) w_awake \<and>
   dialled (observed w_awake) = dialled (observed w_asleep) @ [''wss://omicron''] \<and>
   frames (observed w_awake) = frames (observed w_asleep) @ [''axm:monitor'']"
proof -
  have a: "\<not> isConnected t_down"
    by (simp add: ex_defs)
  have b: "json_Marshal L0 (MsgMessage (envelope L0 t_down w_asleep ''axm:monitor'' (JObject [])))
      = Some ''axm:monitor''"
    by (simp add: L0_def envelope_def)
  have c: "after_failed_dial L0 t_down w_asleep
      = Return () (t_up\<lparr>ws := Some 2\<rparr>)
          (w_awake\<lparr>writes := [True], observed := butlast (observed w_awake)\<rparr>)"
    by (simp add: after_failed_dial_def resolve_def emit_def headers_def ex_defs
        w_asleep_def w_awake_def)
  have d: "isConnected (t_up\<lparr>ws := Some 2\<rparr>)"
    "writes (w_awake\<lparr>writes := [True], observed := butlast (observed w_awake)\<rparr>) = True # []"
    by (simp_all add: ex_defs)
  have e: "(w_awake\<lparr>writes := [True], observed := butlast (observed w_awake)\<rparr>)
        \<lparr>writes := [],
         observed := observed (w_awake\<lparr>writes := [True], observed := butlast (observed w_awake)\<rparr>)
           @ [EvWriteText (ws (t_up\<lparr>ws := Some 2\<rparr>)) ''axm:monitor'']\<rparr> = w_awake"
    by (simp add: w_awake_def w0_def)
  have f: "dialled (observed w_awake) = dialled (observed w_asleep) @ [''wss://omicron'']"
    "frames (observed w_awake) = frames (observed w_asleep) @ [''axm:monitor'']"
    by (simp_all add: w_awake_def w_asleep_def w0_def)
  from Send_behind_holder_writes [where holder = "after_failed_dial L0" and L = L0
      and t = t_down and w = w_asleep, OF a b c d] a c e f
  show ?thesis
    by simp
qed

subsection \<open>GetServer\<close>

text \<open>
  C6. \<^verbatim>\<open>GetServer\<close> returns nil when \<^verbatim>\<open>http.Post\<close> fails, when the body cannot be
  read and when \<^verbatim>\<open>json.Unmarshal\<close> rejects the body; when the body decodes it returns
  the address in \<^verbatim>\<open>Endpoints.WS\<close>. In each case it has made one request and taken one
  answer: there is no second attempt inside the call.
\<close>

theorem GetServer_outcomes:
  "GetServer L t (w\<lparr>posts := PostError # rs\<rparr>) = Return None t (polled L t w rs) \<and>
   GetServer L t (w\<lparr>posts := ReadAllError # rs\<rparr>) = Return None t (polled L t w rs) \<and>
   (json_Unmarshal_verify L data VerifyResponse_zero = None \<longrightarrow>
      GetServer L t (w\<lparr>posts := Body data # rs\<rparr>) = Return None t (polled L t w rs)) \<and>
   (json_Unmarshal_verify L data VerifyResponse_zero = Some response \<longrightarrow>
      GetServer L t (w\<lparr>posts := Body data # rs\<rparr>)
        = Return (Some (WS (Endpoints response))) t (polled L t w rs))"
  by (simp add: GetServer_def polled_def emit_def)

theorem GetServer_outcomes_witness:
  "json_Unmarshal_verify L0 ''<html>'' VerifyResponse_zero = None \<and>
   GetServer L0 t_new (w0\<lparr>posts := [Body ''<html>'']\<rparr>)
     = Return None t_new (polled L0 t_new w0 []) \<and>
   json_Unmarshal_verify L0 ''ws'' VerifyResponse_zero
     = Some \<lparr>Endpoints = \<lparr>WS = ''wss://omicron''\<rparr>\<rparr> \<and>
   GetServer L0 t_new (w0\<lparr>posts := [Body ''ws'']\<rparr>)
     = Return (Some ''wss://omicron'') t_new (polled L0 t_new w0 [])"
  using GetServer_outcomes [where L = L0 and t = t_new and w = w0 and rs = "[]"
          and data = "''<html>''"]
        GetServer_outcomes [where L = L0 and t = t_new and w = w0 and rs = "[]"
          and data = "''ws''" and response = "\<lparr>Endpoints = \<lparr>WS = ''wss://omicron''\<rparr>\<rparr>"]
  by (simp add: L0_def VerifyResponse_zero_def)

subsection \<open>Connect without an endpoint\<close>

text \<open>
  C7. When \<^verbatim>\<open>wsNode\<close> is nil and \<^verbatim>\<open>GetServer\<close> returns nil, \<^verbatim>\<open>Connect\<close> starts the
  retry goroutine and returns, with the transporter unchanged: no \<^verbatim>\<open>Dial\<close> has been
  made and no answer to one has been used. The goroutine it started sleeps ten seconds
  and then calls \<^verbatim>\<open>Connect\<close>; the sleep is in the goroutine, not in the caller.
\<close>

theorem Connect_resolution_failure_retries:
  assumes "wsNode t = None" and "GetServer L t w = Return None t' w'"
  shows "Connect L t w = Return () t (emit (EvGo GoRetryConnect) w') \<and>
         dials w' = dials w \<and>
         dialled (observed (emit (EvGo GoRetryConnect) w')) = dialled (observed w) \<and>
         RetryGoroutine L t w' = Connect L t (emit (EvSleep 10) w')"
proof -
  from assms(2) have w': "dials w' = dials w" "dialled (observed w') = dialled (observed w)"
    by (auto simp: GetServer_def emit_def Let_def dialled_append
        split: list.splits http_result.splits option.splits)
  from assms have "resolve L t w = Return () t w'"
    by (simp add: resolve_def bind_def)
  with assms(1) have "Connect L t w = Return () t (emit (EvGo GoRetryConnect) w')"
    by simp
  with w' show ?thesis
    by (simp add: RetryGoroutine_def emit_def dialled_append)
qed

theorem Connect_resolution_failure_retries_witness:
  "wsNode t_new = None \<and>
   GetServer L0 t_new (w0\<lparr>posts := [PostError], dials := [Some 1]\<rparr>)
     = Return None t_new (polled L0 t_new (w0\<lparr>dials := [Some 1]\<rparr>) []) \<and>
   Connect L0 t_new (w0\<lparr>posts := [PostError], dials := [Some 1]\<rparr>)
     = Return () t_new (emit (EvGo GoRetryConnect) (polled L0 t_new (w0\<lparr>dials := [Some 1]\<rparr>) []))"
proof -
  have a: "wsNode t_new = None"
    by (simp add: ex_defs)
  have b: "GetServer L0 t_new (w0\<lparr>posts := [PostError], dials := [Some 1]\<rparr>)
     = Return None t_new (polled L0 t_new (w0\<lparr>dials := [Some 1]\<rparr>) [])"
    by (simp add: GetServer_def polled_def emit_def w0_def)
  from Connect_resolution_failure_retries [OF a b] a b show ?thesis
    by simp
qed

subsection \<open>MessagesHandler\<close>

text \<open>
  C8. A frame that \<^verbatim>\<open>json.Unmarshal\<close> rejects makes the handler panic: the turn of the
  loop that reads it ends in the panic, and so does the handler, however many frames
  would have followed. It does not log the frame and go on.
\<close>

theorem MessagesHandler_malformed_frame_panics:
  assumes "reads w = Some message # rs" and "json_Unmarshal L message = None"
  shows "MessagesHandler_step L t w = Panic UnmarshalError \<and>
         MessagesHandler L (Suc n) t w = Panic UnmarshalError"
  using assms by (simp add: MessagesHandler_def MessagesHandler_step_def bind_def)

theorem MessagesHandler_malformed_frame_panics_witness:
  "reads (w0\<lparr>reads := [Some ''not json'', Some ''action'']\<rparr>) = Some ''not json'' # [Some ''action''] \<and>
   json_Unmarshal L0 ''not json'' = None \<and>
   MessagesHandler L0 (Suc 1) t_up (w0\<lparr>reads := [Some ''not json'', Some ''action'']\<rparr>)
     = Panic UnmarshalError"
proof -
  have a: "reads (w0\<lparr>reads := [Some ''not json'', Some ''action'']\<rparr>)
      = Some ''not json'' # [Some ''action'']"
    by simp
  have b: "json_Unmarshal L0 ''not json'' = None"
    by (simp add: L0_def)
  from MessagesHandler_malformed_frame_panics [OF a b, where t = t_up and n = 1] a b
  show ?thesis
    by simp
qed

text \<open>
  C3. As stated (every \<^verbatim>\<open>trigger:action\<close> frame for a registered action puts exactly
  two frames on the wire) the property fails where \<^verbatim>\<open>SendJson\<close> meets its guard: on
  a transporter that is not connected the frame of the registered action \<^verbatim>\<open>Test\<close> is
  handled, the handler stays in its loop, and nothing is written.
\<close>

theorem trigger_action_disconnected_counterexample:
  "json_Unmarshal L0 ''action'' = Some action_frame \<and>
   index action_frame ''channel'' = JString ''trigger:action'' \<and>
   field (index action_frame ''payload'') ''action_name'' = JString ''Test'' \<and>
   registered L0 ''Test'' \<and>
   MessagesHandler_step L0 t_down w_action = Return Running t_down (w_action\<lparr>reads := []\<rparr>) \<and>
   written (MessagesHandler_step L0 t_down w_action) = []"
proof -
  have a: "json_Unmarshal L0 ''action'' = Some action_frame"
    by (simp add: L0_def)
  have b: "\<not> isConnected t_down"
    by (simp add: t_down_def)
  have c: "MessagesHandler_step L0 t_down w_action
     = Return Running t_down (w_action\<lparr>reads := []\<rparr>)"
    by (simp add: MessagesHandler_step_def a b index_action_frame Send_def SendJson_def bind_def
        w_action_def split: option.splits)
  have d: "registered L0 ''Test''"
    by (simp add: registered_def L0_def)
  have e: "frames (observed w_action) = []"
    by (simp add: w_action_def w0_def)
  show ?thesis
    by (simp add: a c d e index_action_frame field_def written_def)
qed

text \<open>
  C3, amended. On a connected transporter, when \<^verbatim>\<open>json.Marshal\<close> accepts a
  \<^verbatim>\<open>Message\<close> and the two writes succeed, a \<^verbatim>\<open>trigger:action\<close> frame whose
  \<^verbatim>\<open>action_name\<close> is a registered name makes the handler write exactly two frames, in
  this order: the \<^verbatim>\<open>Message\<close> on channel \<^verbatim>\<open>trigger:action:success\<close> and the one on
  \<^verbatim>\<open>axm:reply\<close>; the data of both carry the requested name under \<^verbatim>\<open>action_name\<close>. The
  transporter is unchanged and the handler stays in its loop.
\<close>

theorem trigger_action_two_frames:
  assumes "reads w = Some message # rs"
    and "json_Unmarshal L message = Some dat"
    and "index dat ''channel'' = JString ''trigger:action''"
    and "index dat ''payload'' = JObject payload"
    and "index payload ''action_name'' = JString name"
    and "registered L name"
    and "isConnected t"
    and "writes w = True # True # rest"
    and "\<And>m. json_Marshal L (MsgMessage m) = Some (enc m)"
  shows "\<exists>m1 m2.
           MessagesHandler_step L t w
             = Return Running t
                 (w\<lparr>reads := rs, writes := rest,
                    observed := observed w @
                      [EvWriteText (ws t) (enc m1), EvWriteText (ws t) (enc m2)]\<rparr>) \<and>
           Channel m1 = ''trigger:action:success'' \<and>
           Channel m2 = ''axm:reply'' \<and>
           field (Data (Payload m1)) ''action_name'' = JString name \<and>
           field (Data (Payload m2)) ''action_name'' = JString name"
proof -
  define w1 where "w1 = w\<lparr>reads := rs\<rparr>"
  define m1 where
    "m1 = envelope L t w1 ''trigger:action:success'' (success_data payload (JString name))"
  define w2 where "w2 = emit (EvWriteText (ws t) (enc m1)) (w1\<lparr>writes := True # rest\<rparr>)"
  define m2 where
    "m2 = envelope L t w2 ''axm:reply'' (reply_data (JString name) (CallAction L name payload))"
  have s1: "Send L ''trigger:action:success'' (success_data payload (JString name)) t w1
      = Return () t w2"
    using assms(7,8,9) by (simp add: Send_def SendJson_def m1_def w2_def w1_def)
  have s2: "Send L ''axm:reply'' (reply_data (JString name) (CallAction L name payload)) t w2
      = Return () t (emit (EvWriteText (ws t) (enc m2)) (w2\<lparr>writes := rest\<rparr>))"
    using assms(7,9) by (simp add: Send_def SendJson_def m2_def w2_def w1_def emit_def)
  have step: "MessagesHandler_step L t w
      = Return Running t (emit (EvWriteText (ws t) (enc m2)) (w2\<lparr>writes := rest\<rparr>))"
    using assms(1-5) s1 s2 by (simp add: MessagesHandler_step_def bind_def w1_def)
  have w: "emit (EvWriteText (ws t) (enc m2)) (w2\<lparr>writes := rest\<rparr>)
      = w\<lparr>reads := rs, writes := rest,
           observed := observed w @
             [EvWriteText (ws t) (enc m1), EvWriteText (ws t) (enc m2)]\<rparr>"
    by (simp add: w2_def w1_def emit_def)
  have f: "Channel m1 = ''trigger:action:success''" "Channel m2 = ''axm:reply''"
    "field (Data (Payload m1)) ''action_name'' = JString name"
    "field (Data (Payload m2)) ''action_name'' = JString name"
    by (simp_all add: m1_def m2_def envelope_def success_data_def reply_data_def field_def
        index_def)
  from step w f show ?thesis
    by metis
qed

theorem trigger_action_two_frames_witness:
  "\<exists>(m1::message) (m2::message).
     MessagesHandler_step L0 t_up w_action
       = Return Running t_up
           (w_action\<lparr>reads := [], writes := [],
              observed := observed w_action @
                [EvWriteText (ws t_up) (Channel m1), EvWriteText (ws t_up) (Channel m2)]\<rparr>) \<and>
     Channel m1 = ''trigger:action:success'' \<and>
     Channel m2 = ''axm:reply'' \<and>
     field (Data (Payload m1)) ''action_name'' = JString ''Test'' \<and>
     field (Data (Payload m2)) ''action_name'' = JString ''Test''"
proof -
  have h: "reads w_action = Some ''action'' # []"
    "json_Unmarshal L0 ''action'' = Some action_frame"
    "registered L0 ''Test''"
    "isConnected t_up"
    "writes w_action = True # True # []"
    "\<And>m. json_Marshal L0 (MsgMessage m) = Some (Channel m)"
    by (simp_all add: L0_def registered_def t_up_def w_action_def)
  show ?thesis
    by (rule trigger_action_two_frames [OF h(1) h(2) index_action_frame h(3) h(4) h(5) h(6)])
qed

subsection \<open>The refresh and heartbeat goroutines\<close>

text \<open>
  C2. The property asks that a refresh tick whose resolution fails change nothing. The
  code reads through the pointer that \<^verbatim>\<open>GetServer\<close> returned without looking at it:
  whenever \<^verbatim>\<open>GetServer\<close> returns nil, the tick panics on the nil pointer, and the
  refresh loop ends there whatever ticks would have followed. (\<^verbatim>\<open>Connect\<close> does test
  the same result against nil.)
\<close>

theorem refresh_tick_failed_resolution_panics:
  assumes "GetServer L t w = Return None t' w'"
  shows "refresh_tick L t w = Panic NilDereference \<and>
         loop (Suc n) (refresh_tick L) t w = Panic NilDereference"
  using assms by (simp add: refresh_tick_def bind_def)

theorem refresh_tick_failed_resolution_panics_witness:
  "GetServer L0 t_up (w0\<lparr>posts := [PostError]\<rparr>) = Return None t_up (polled L0 t_up w0 []) \<and>
   refresh_tick L0 t_up (w0\<lparr>posts := [PostError]\<rparr>) = Panic NilDereference \<and>
   loop (Suc 2) (refresh_tick L0) t_up (w0\<lparr>posts := [PostError]\<rparr>) = Panic NilDereference"
proof -
  have a: "GetServer L0 t_up (w0\<lparr>posts := [PostError]\<rparr>)
      = Return None t_up (polled L0 t_up w0 [])"
    by (simp add: GetServer_def polled_def emit_def w0_def)
  from refresh_tick_failed_resolution_panics [OF a, where n = 2] a show ?thesis
    by simp
qed

text \<open>
  C5. The property asks for a fresh heartbeat loop after the reconnection that a failed
  ping starts. In the code, once \<^verbatim>\<open>heartbeatTicker\<close> has been set, a tick whose write
  fails and whose reconnection returns ends the loop with the field still set; every
  heartbeat goroutine started from then on finds it set and returns before its first
  ping, however often its ticker would have fired. No heartbeat loop is left.
\<close>

theorem heartbeat_not_restarted:
  assumes "heartbeatTicker t = Some p"
    and "heartbeat_tick L t (w\<lparr>writes := False # rest\<rparr>) = Return s t' w'"
  shows "s = Exited \<and> heartbeatTicker t' = Some p \<and>
         HeartbeatGoroutine L n t' w'' = Return Exited t' w''"
proof -
  from assms(2) obtain u where
    c: "CloseAndReconnect L t (emit (EvWritePing (ws t)) (w\<lparr>writes := rest\<rparr>)) = Return u t' w'"
    and s: "s = Exited"
    by (auto simp del: Connect.simps CloseAndReconnect.simps
        simp add: heartbeat_tick_def bind_def Let_def split: run.splits)
  from c ticker_kept(2) assms(1) have "heartbeatTicker t' = Some p"
    by metis
  with s show ?thesis
    by (simp add: HeartbeatGoroutine_def)
qed

theorem heartbeat_not_restarted_witness:
  "heartbeatTicker t_up = Some 5 \<and>
   heartbeat_tick L0 t_up (w0\<lparr>writes := [False], dials := [Some 2]\<rparr>)
     = Return Exited (t_up\<lparr>ws := Some 2\<rparr>)
         (w0\<lparr>observed := [EvWritePing (Some 1), EvClose (Some 1),
                           EvDial ''wss://omicron'' (headers t_up), EvGo GoRefresh]\<rparr>) \<and>
   isConnected (t_up\<lparr>ws := Some 2\<rparr>) \<and>
   started [EvWritePing (Some 1), EvClose (Some 1),
            EvDial ''wss://omicron'' (headers t_up), EvGo GoRefresh] = [GoRefresh] \<and>
   HeartbeatGoroutine L0 3 (t_up\<lparr>ws := Some 2\<rparr>) (w0\<lparr>writes := [True, True, True]\<rparr>)
     = Return Exited (t_up\<lparr>ws := Some 2\<rparr>) (w0\<lparr>writes := [True, True, True]\<rparr>)"
proof -
  have a: "heartbeatTicker t_up = Some 5"
    by (simp add: ex_defs)
  have b: "heartbeat_tick L0 t_up ((w0\<lparr>dials := [Some 2]\<rparr>)\<lparr>writes := False # []\<rparr>)
     = Return Exited (t_up\<lparr>ws := Some 2\<rparr>)
         (w0\<lparr>observed := [EvWritePing (Some 1), EvClose (Some 1),
                           EvDial ''wss://omicron'' (headers t_up), EvGo GoRefresh]\<rparr>)"
    by (simp add: heartbeat_tick_def bind_def resolve_def emit_def headers_def ex_defs)
  have c: "(w0\<lparr>dials := [Some 2]\<rparr>)\<lparr>writes := False # []\<rparr>
      = w0\<lparr>writes := [False], dials := [Some 2]\<rparr>"
    by (simp add: w0_def)
  from heartbeat_not_restarted [OF a b, where n = 3 and w'' = "w0\<lparr>writes := [True, True, True]\<rparr>"]
    a b c
  show ?thesis
    by (simp add: t_up_def)
qed

subsection \<open>An answer without an address\<close>

text \<open>
  C10. As stated (every body that is valid JSON gives a non-nil endpoint) the property
  fails: \<^verbatim>\<open>GetServer\<close> asks \<^verbatim>\<open>json.Unmarshal\<close> to fill a struct, and a body that is
  valid JSON of another kind is refused. The body \<^verbatim>\<open>[]\<close> is valid JSON, the decoder
  returns an error for it, and \<^verbatim>\<open>GetServer\<close> returns nil.
\<close>

theorem GetServer_valid_json_array_counterexample:
  "json_value ''[]'' = Some (JArray []) \<and>
   json_Unmarshal_verify L1 ''[]'' VerifyResponse_zero = None \<and>
   GetServer L1 t_new (w0\<lparr>posts := [Body ''[]'']\<rparr>) = Return None t_new (polled L1 t_new w0 [])"
proof -
  have a: "json_value ''[]'' = Some (JArray [])"
    by (simp add: json_value_def)
  have b: "json_Unmarshal_verify L1 ''[]'' VerifyResponse_zero = None"
    by (simp add: L1_def a store_verify_def)
  have c: "GetServer L1 t_new (w0\<lparr>posts := [Body ''[]'']\<rparr>)
      = Return None t_new (polled L1 t_new w0 [])"
    by (simp add: GetServer_def b polled_def emit_def w0_def)
  from a b c show ?thesis
    by simp
qed

text \<open>
  C10, amended. When the discovery exchange gives a body and \<^verbatim>\<open>json.Unmarshal\<close>
  returns no error for it, \<^verbatim>\<open>GetServer\<close> returns a non-nil pointer to whatever
  \<^verbatim>\<open>Endpoints.WS\<close> then holds. When the body set no field, so that the response is
  still \<^verbatim>\<open>VerifyResponse{}\<close>, that is the empty string, and a \<^verbatim>\<open>Connect\<close> that had no
  cached endpoint goes on to dial the empty address: if the dial fails, the dial has
  been made when \<^verbatim>\<open>Connect\<close> sleeps and reconnects; if it succeeds, the transporter is
  connected with the empty address cached.
\<close>

theorem GetServer_decodable_body_non_nil:
  assumes "posts w = Body data # rs"
    and "json_Unmarshal_verify L data VerifyResponse_zero = Some response"
    and "wsNode t = None"
    and "dials w = d # ds"
  shows "GetServer L t w = Return (Some (WS (Endpoints response))) t (polled L t w rs) \<and>
         (response = VerifyResponse_zero \<longrightarrow>
            GetServer L t w = Return (Some []) t (polled L t w rs) \<and>
            (d = None \<longrightarrow>
               Connect L t w
                 = CloseAndReconnect L (t\<lparr>wsNode := Some [], isConnecting := False\<rparr>)
                     (emit (EvSleep 2)
                        (emit (EvDial [] (headers t)) ((polled L t w rs)\<lparr>dials := ds\<rparr>))) \<and>
               dialled (observed (emit (EvSleep 2)
                        (emit (EvDial [] (headers t)) ((polled L t w rs)\<lparr>dials := ds\<rparr>))))
                 = dialled (observed w) @ [[]]) \<and>
            (\<forall>c. d = Some c \<longrightarrow>
               (\<exists>t' w'. Connect L t w = Return () t' w' \<and> wsNode t' = Some [] \<and>
                  ws t' = Some c \<and> isConnected t' \<and>
                  dialled (observed w') = dialled (observed w) @ [[]])))"
proof -
  have g: "GetServer L t w = Return (Some (WS (Endpoints response))) t (polled L t w rs)"
    using assms(1,2) by (simp add: GetServer_def polled_def emit_def)
  have z: "WS (Endpoints VerifyResponse_zero) = []"
    by (simp add: VerifyResponse_zero_def)
  have p: "dials (polled L t w rs) = d # ds"
    "dialled (observed (polled L t w rs)) = dialled (observed w)"
    using assms(4) by (simp_all add: polled_def dialled_append)
  have h: "headers (t\<lparr>wsNode := Some []\<rparr>) = headers t"
    by (simp add: headers_def)
  have r: "resolve L t w = Return () (t\<lparr>wsNode := Some []\<rparr>) (polled L t w rs)"
    if "response = VerifyResponse_zero"
    using that g z assms(3) by (simp add: resolve_def bind_def)
  have n: "Connect L t w
      = CloseAndReconnect L (t\<lparr>wsNode := Some [], isConnecting := False\<rparr>)
          (emit (EvSleep 2) (emit (EvDial [] (headers t)) ((polled L t w rs)\<lparr>dials := ds\<rparr>)))"
    if "response = VerifyResponse_zero" "d = None"
    using r [OF that(1)] p(1) h that(2)
    by (simp add: Connect.simps [of L t w] del: Connect.simps CloseAndReconnect.simps)
  have e: "dialled (observed (emit (EvSleep 2)
        (emit (EvDial [] (headers t)) ((polled L t w rs)\<lparr>dials := ds\<rparr>))))
      = dialled (observed w) @ [[]]"
    using p(2) by (simp add: emit_def dialled_append)
  have c: "\<exists>t' w'. Connect L t w = Return () t' w' \<and> wsNode t' = Some [] \<and>
      ws t' = Some c \<and> isConnected t' \<and> dialled (observed w') = dialled (observed w) @ [[]]"
    if "response = VerifyResponse_zero" "d = Some c" for c
    using r [OF that(1)] p h that(2)
    by (auto simp: Connect.simps [of L t w] Let_def SetHandlers_def emit_def dialled_append
        simp del: Connect.simps CloseAndReconnect.simps split: prod.splits)
  from g z n e c show ?thesis
    by (auto simp del: Connect.simps CloseAndReconnect.simps)
qed

theorem GetServer_decodable_body_non_nil_witness:
  "json_value ''{}'' = Some (JObject []) \<and>
   json_Unmarshal_verify L1 ''{}'' VerifyResponse_zero = Some VerifyResponse_zero \<and>
   GetServer L1 t_new (w0\<lparr>posts := [Body ''{}''], dials := [None]\<rparr>)
     = Return (Some []) t_new (polled L1 t_new (w0\<lparr>dials := [None]\<rparr>) []) \<and>
   dialled (observed (emit (EvSleep 2)
       (emit (EvDial [] (headers t_new)) ((polled L1 t_new (w0\<lparr>dials := [None]\<rparr>) [])\<lparr>dials := []\<rparr>))))
     = [[]] \<and>
   Connect L1 t_new (w0\<lparr>posts := [Body ''{}''], dials := [None]\<rparr>) = Panic NilDereference \<and>
   (\<exists>t' w'. Connect L1 t_new (w0\<lparr>posts := [Body ''{}''], dials := [Some 1]\<rparr>) = Return () t' w' \<and>
      wsNode t' = Some [] \<and> ws t' = Some 1 \<and> isConnected t' \<and>
      dialled (observed w') = [[]])"
proof -
  have v: "json_value ''{}'' = Some (JObject [])"
    by (simp add: json_value_def)
  have a: "json_Unmarshal_verify L1 ''{}'' VerifyResponse_zero = Some VerifyResponse_zero"
    by (simp add: L1_def v store_verify_def)
  have b: "wsNode t_new = None"
    by (simp add: ex_defs)
  have c: "polled L1 t_new (w0\<lparr>posts := [Body ''{}''], dials := [None]\<rparr>) []
      = polled L1 t_new (w0\<lparr>dials := [None]\<rparr>) []"
    "dialled (observed (w0\<lparr>posts := [Body ''{}''], dials := [None]\<rparr>)) = []"
    "dialled (observed (w0\<lparr>posts := [Body ''{}''], dials := [Some 1]\<rparr>)) = []"
    by (simp_all add: polled_def w0_def)
  have z: "WS (Endpoints VerifyResponse_zero) = []"
    by (simp add: VerifyResponse_zero_def)
  have p: "CloseAndReconnect L1 (t_new\<lparr>wsNode := Some [], isConnecting := False\<rparr>) x
      = Panic NilDereference" for x
    by (simp add: ex_defs)
  from GetServer_decodable_body_non_nil [where w = "w0\<lparr>posts := [Body ''{}''], dials := [None]\<rparr>"
      and L = L1 and t = t_new and d = None and ds = "[]" and rs = "[]", OF _ a b]
    GetServer_decodable_body_non_nil [where w = "w0\<lparr>posts := [Body ''{}''], dials := [Some 1]\<rparr>"
      and L = L1 and t = t_new and d = "Some 1" and ds = "[]" and rs = "[]", OF _ a b]
    v a c p z
  show ?thesis
    by (simp del: Connect.simps CloseAndReconnect.simps)
qed

end
